theory Spec2Isabelle
  imports Main "HOL-Library.Word"
begin

unbundle bit_operations_syntax

section \<open>The ST7735 display driver (src/old_c/ST7735.c)\<close>

subsection \<open>Machine types\<close>

text \<open>
  The C integer types of the driver. \<open>int16_t\<close> is a 16-bit word read with \<open>sint\<close>;
  the unsigned types are read with \<open>uint\<close>/\<open>unat\<close>. Where C promotes operands to
  \<open>int\<close> (32 bits on the STM32) the arithmetic is written on HOL's \<open>int\<close>: the
  operands are at most 16 bits wide, so no promoted expression of the driver leaves the
  32-bit range. A conversion back to a narrower type is \<open>word_of_int\<close> (or \<open>ucast\<close>
  between words), which keeps the low bits.
\<close>

type_synonym uint8_t = "8 word"
type_synonym uint16_t = "16 word"
type_synonym int16_t = "16 word"

subsection \<open>The transport port\<close>

text \<open>
  The functions \<open>st7735_send_cmd\<close>, \<open>st7735_send_data\<close>, \<open>delay_ms\<close>, \<open>lcd_cs0\<close>,
  \<open>lcd_rst0\<close> and \<open>lcd_rst1\<close> are declared in \<open>_rust.h\<close> and implemented outside the C
  file. The driver only calls them, so each call is recorded, in order, in a trace that
  is part of the state.
\<close>

datatype event =
    Cmd uint8_t
  | Data uint8_t
  | Delay uint16_t
  | CS0
  | RST0
  | RST1

text \<open>
  The static variables of the driver (\<open>_width\<close>, \<open>_height\<close>, \<open>colstart\<close>, \<open>rowstart\<close>)
  together with the trace of the transport port. \<open>colstart\<close> and \<open>rowstart\<close> are C
  \<open>int\<close>s; the driver only ever stores 0, 1 or 2 in them.
\<close>

record display =
  width :: uint16_t
  height :: uint16_t
  colstart :: int
  rowstart :: int
  port :: "event list"

definition st7735_send_cmd :: "uint8_t \<Rightarrow> display \<Rightarrow> display" where
  "st7735_send_cmd b s = s\<lparr>port := port s @ [Cmd b]\<rparr>"

definition st7735_send_data :: "uint8_t \<Rightarrow> display \<Rightarrow> display" where
  "st7735_send_data b s = s\<lparr>port := port s @ [Data b]\<rparr>"

definition delay_ms :: "uint16_t \<Rightarrow> display \<Rightarrow> display" where
  "delay_ms ms s = s\<lparr>port := port s @ [Delay ms]\<rparr>"

definition lcd_cs0 :: "display \<Rightarrow> display" where
  "lcd_cs0 s = s\<lparr>port := port s @ [CS0]\<rparr>"

definition lcd_rst0 :: "display \<Rightarrow> display" where
  "lcd_rst0 s = s\<lparr>port := port s @ [RST0]\<rparr>"

definition lcd_rst1 :: "display \<Rightarrow> display" where
  "lcd_rst1 s = s\<lparr>port := port s @ [RST1]\<rparr>"

subsection \<open>The constants of ST7735.h\<close>

text \<open>
  The header \<open>ST7735.h\<close> is not part of the sources. The macros the C file takes from it
  are the fields of this record, and every function that uses one of them takes the
  record as its first argument. \<open>LCD_SOFT_RESET\<close> tells whether that macro is defined.
\<close>

record st7735_h =
  ST7735_TFTWIDTH :: uint16_t
  ST7735_TFTHEIGHT :: uint16_t
  INITR_GREENTAB :: uint8_t
  INITR_REDTAB :: uint8_t
  INITR_BLACKTAB :: uint8_t
  LCD_SOFT_RESET :: bool
  ST7735_SWRESET :: uint8_t
  ST7735_SLPOUT :: uint8_t
  ST7735_NORON :: uint8_t
  ST7735_INVOFF :: uint8_t
  ST7735_DISPON :: uint8_t
  ST7735_CASET :: uint8_t
  ST7735_RASET :: uint8_t
  ST7735_RAMWR :: uint8_t
  ST7735_MADCTL :: uint8_t
  ST7735_COLMOD :: uint8_t
  ST7735_FRMCTR1 :: uint8_t
  ST7735_FRMCTR2 :: uint8_t
  ST7735_FRMCTR3 :: uint8_t
  ST7735_INVCTR :: uint8_t
  ST7735_PWCTR1 :: uint8_t
  ST7735_PWCTR2 :: uint8_t
  ST7735_PWCTR3 :: uint8_t
  ST7735_PWCTR4 :: uint8_t
  ST7735_PWCTR5 :: uint8_t
  ST7735_VMCTR1 :: uint8_t
  ST7735_GMCTRP1 :: uint8_t
  ST7735_GMCTRN1 :: uint8_t

text \<open>
  One instance of the header, used where a theorem is applied to a concrete input: the
  register numbers of the ST7735 data sheet and a panel of 128 by 160 pixels, reset by
  the reset line.
\<close>

definition sample_h :: st7735_h where
  "sample_h = \<lparr>
     ST7735_TFTWIDTH = 128, ST7735_TFTHEIGHT = 160,
     INITR_GREENTAB = 0x0, INITR_REDTAB = 0x1, INITR_BLACKTAB = 0x2,
     LCD_SOFT_RESET = False,
     ST7735_SWRESET = 0x01, ST7735_SLPOUT = 0x11, ST7735_NORON = 0x13,
     ST7735_INVOFF = 0x20, ST7735_DISPON = 0x29, ST7735_CASET = 0x2A,
     ST7735_RASET = 0x2B, ST7735_RAMWR = 0x2C, ST7735_MADCTL = 0x36,
     ST7735_COLMOD = 0x3A, ST7735_FRMCTR1 = 0xB1, ST7735_FRMCTR2 = 0xB2,
     ST7735_FRMCTR3 = 0xB3, ST7735_INVCTR = 0xB4, ST7735_PWCTR1 = 0xC0,
     ST7735_PWCTR2 = 0xC1, ST7735_PWCTR3 = 0xC2, ST7735_PWCTR4 = 0xC3,
     ST7735_PWCTR5 = 0xC4, ST7735_VMCTR1 = 0xC5, ST7735_GMCTRP1 = 0xE0,
     ST7735_GMCTRN1 = 0xE1 \<rparr>"

text \<open>The static initialisers of the C file: the state before any call.\<close>

definition initial_display :: "st7735_h \<Rightarrow> display" where
  "initial_display h = \<lparr>
     width = ST7735_TFTWIDTH h, height = ST7735_TFTHEIGHT h,
     colstart = 0, rowstart = 0, port = [] \<rparr>"

subsection \<open>The command tables\<close>

definition DELAY :: uint8_t where
  "DELAY = 0x80"

definition Rcmd1 :: "st7735_h \<Rightarrow> uint8_t list" where
  "Rcmd1 h = [
     15,
     ST7735_SWRESET h, DELAY,
       150,
     ST7735_SLPOUT h, DELAY,
       255,
     ST7735_FRMCTR1 h, 3,
       0x01, 0x2C, 0x2D,
     ST7735_FRMCTR2 h, 3,
       0x01, 0x2C, 0x2D,
     ST7735_FRMCTR3 h, 6,
       0x01, 0x2C, 0x2D,
       0x01, 0x2C, 0x2D,
     ST7735_INVCTR h, 1,
       0x07,
     ST7735_PWCTR1 h, 3,
       0xA2,
       0x02,
       0x84,
     ST7735_PWCTR2 h, 1,
       0xC5,
     ST7735_PWCTR3 h, 2,
       0x0A,
       0x00,
     ST7735_PWCTR4 h, 2,
       0x8A,
       0x2A,
     ST7735_PWCTR5 h, 2,
       0x8A, 0xEE,
     ST7735_VMCTR1 h, 1,
       0x0E,
     ST7735_INVOFF h, 0,
     ST7735_MADCTL h, 1,
       0xC0,
     ST7735_COLMOD h, 1 + DELAY,
       0x05,
       10]"

definition Rcmd2green :: "st7735_h \<Rightarrow> uint8_t list" where
  "Rcmd2green h = [
     2,
     ST7735_CASET h, 4,
       0x00, 0x02,
       0x00, 0x7F + 0x02,
     ST7735_RASET h, 4,
       0x00, 0x01,
       0x00, 0x9F + 0x01]"

definition Rcmd2red :: "st7735_h \<Rightarrow> uint8_t list" where
  "Rcmd2red h = [
     2,
     ST7735_CASET h, 4,
       0x00, 0x00,
       0x00, 0x7F,
     ST7735_RASET h, 4,
       0x00, 0x00,
       0x00, 0x9F]"

definition Rcmd3 :: "st7735_h \<Rightarrow> uint8_t list" where
  "Rcmd3 h = [
     4,
     ST7735_GMCTRP1 h, 16,
       0x02, 0x1c, 0x07, 0x12,
       0x37, 0x32, 0x29, 0x2d,
       0x29, 0x25, 0x2B, 0x39,
       0x00, 0x01, 0x03, 0x10,
     ST7735_GMCTRN1 h, 16,
       0x03, 0x1d, 0x07, 0x06,
       0x2E, 0x2C, 0x29, 0x2D,
       0x2E, 0x2E, 0x37, 0x3F,
       0x00, 0x00, 0x02, 0x10,
     ST7735_NORON h, DELAY,
       10,
     ST7735_DISPON h, DELAY,
       100]"

subsection \<open>commandList\<close>

text \<open>
  The pointer \<open>addr\<close> is the list of the bytes from \<open>addr\<close> to the end of the table;
  \<open>*addr++\<close> takes its head. A read past the end of the table is undefined behaviour
  in C and \<open>None\<close> here.

  \<open>send_args\<close> is the inner loop \<open>while(numArgs--) st7735_send_data(*addr++)\<close>.
\<close>

fun send_args :: "uint8_t \<Rightarrow> uint8_t list \<Rightarrow> display \<Rightarrow> (uint8_t list \<times> display) option" where
  "send_args numArgs [] s = (if numArgs = 0 then Some ([], s) else None)"
| "send_args numArgs (b # addr) s =
     (if numArgs = 0 then Some (b # addr, s)
      else send_args (numArgs - 1) addr (st7735_send_data b s))"

text \<open>The outer loop \<open>while(numCommands--) { ... }\<close>.\<close>

function command_loop :: "uint8_t \<Rightarrow> uint8_t list \<Rightarrow> display \<Rightarrow> display option" where
  "command_loop numCommands addr s =
     (if numCommands = 0 then Some s
      else case addr of
        [] \<Rightarrow> None
      | cmd # addr1 \<Rightarrow>
          (let s1 = st7735_send_cmd cmd s in
           case addr1 of
             [] \<Rightarrow> None
           | numArgs # addr2 \<Rightarrow>
               (let ms = (ucast (numArgs AND DELAY) :: uint16_t);
                    numArgs' = numArgs AND NOT DELAY in
                case send_args numArgs' addr2 s1 of
                  None \<Rightarrow> None
                | Some (addr3, s2) \<Rightarrow>
                    if ms \<noteq> 0 then
                      (case addr3 of
                         [] \<Rightarrow> None
                       | d # addr4 \<Rightarrow>
                           (let ms1 = (ucast d :: uint16_t);
                                ms2 = (if ms1 = 255 then 500 else ms1) in
                            command_loop (numCommands - 1) addr4 (delay_ms ms2 s2)))
                    else command_loop (numCommands - 1) addr3 s2)))"
  by pat_completeness auto
termination
  by (relation "measure (\<lambda>(numCommands, addr, s). unat numCommands)")
     (auto simp: unat_minus_one unat_gt_0)

declare command_loop.simps [simp del]

definition commandList :: "uint8_t list \<Rightarrow> display \<Rightarrow> display option" where
  "commandList addr s =
     (case addr of
        [] \<Rightarrow> None
      | numCommands # addr' \<Rightarrow> command_loop numCommands addr' s)"

subsection \<open>Initialisation\<close>

text \<open>\<open>cmdList\<close> is a pointer that may be null: \<open>None\<close> is the null pointer.\<close>

definition commonInit :: "st7735_h \<Rightarrow> uint8_t list option \<Rightarrow> display \<Rightarrow> display option" where
  "commonInit h cmdList s =
     (let s1 = lcd_cs0 s;
          s2 = (if LCD_SOFT_RESET h
                then delay_ms 500 (st7735_send_cmd (ST7735_SWRESET h) s1)
                else delay_ms 500 (lcd_rst1 (delay_ms 500 (lcd_rst0 (delay_ms 500 (lcd_rst1 s1))))))
      in case cmdList of
           None \<Rightarrow> Some s2
         | Some l \<Rightarrow> commandList l s2)"

definition initR :: "st7735_h \<Rightarrow> uint8_t \<Rightarrow> display \<Rightarrow> display option" where
  "initR h options s =
     (case commonInit h (Some (Rcmd1 h)) (delay_ms 50 s) of
        None \<Rightarrow> None
      | Some s1 \<Rightarrow>
          (case (if options = INITR_GREENTAB h
                 then (case commandList (Rcmd2green h) s1 of
                         None \<Rightarrow> None
                       | Some s' \<Rightarrow> Some (s'\<lparr>colstart := 2, rowstart := 1\<rparr>))
                 else commandList (Rcmd2red h) s1) of
             None \<Rightarrow> None
           | Some s2 \<Rightarrow>
               (case commandList (Rcmd3 h) s2 of
                  None \<Rightarrow> None
                | Some s3 \<Rightarrow>
                    Some (if options = INITR_BLACKTAB h
                          then st7735_send_data 0xC0 (st7735_send_cmd (ST7735_MADCTL h) s3)
                          else s3))))"

subsection \<open>Address window and colour push\<close>

definition setAddrWindow ::
  "st7735_h \<Rightarrow> uint8_t \<Rightarrow> uint8_t \<Rightarrow> uint8_t \<Rightarrow> uint8_t \<Rightarrow> display \<Rightarrow> display" where
  "setAddrWindow h x0 y0 x1 y1 s =
     (let s1 = st7735_send_cmd (ST7735_CASET h) s;
          s2 = st7735_send_data 0x00 s1;
          s3 = st7735_send_data (word_of_int (uint x0 + colstart s2)) s2;
          s4 = st7735_send_data 0x00 s3;
          s5 = st7735_send_data (word_of_int (uint x1 + colstart s4)) s4;
          s6 = st7735_send_cmd (ST7735_RASET h) s5;
          s7 = st7735_send_data 0x00 s6;
          s8 = st7735_send_data (word_of_int (uint y0 + rowstart s7)) s7;
          s9 = st7735_send_data 0x00 s8;
          s10 = st7735_send_data (word_of_int (uint y1 + rowstart s9)) s9
      in st7735_send_cmd (ST7735_RAMWR h) s10)"

definition pushColor :: "uint16_t \<Rightarrow> display \<Rightarrow> display" where
  "pushColor color s =
     st7735_send_data (ucast (color AND 0xff))
       (st7735_send_data (ucast (drop_bit 8 color)) s)"

subsection \<open>Drawing primitives\<close>

text \<open>
  The comparisons of an \<open>int16_t\<close> coordinate with the \<open>uint16_t\<close> bound are made on
  \<open>int\<close> after promotion: \<open>sint x\<close> against \<open>uint (width s)\<close>. The arguments of
  \<open>setAddrWindow\<close> are converted to \<open>uint8_t\<close>.
\<close>

definition drawPixel :: "st7735_h \<Rightarrow> int16_t \<Rightarrow> int16_t \<Rightarrow> uint16_t \<Rightarrow> display \<Rightarrow> display" where
  "drawPixel h x y color s =
     (if sint x < 0 \<or> sint x \<ge> uint (width s) \<or> sint y < 0 \<or> sint y \<ge> uint (height s) then s
      else pushColor color
             (setAddrWindow h (ucast x) (ucast y)
                (word_of_int (sint x + 1)) (word_of_int (sint y + 1)) s))"

text \<open>
  The loop \<open>while (n--) pushColor(color)\<close> of both line functions, on the \<open>int16_t\<close>
  counter: it stops when the counter is zero, so a negative counter wraps around.
\<close>

function push_while :: "int16_t \<Rightarrow> uint16_t \<Rightarrow> display \<Rightarrow> display" where
  "push_while n color s =
     (if n = 0 then s else push_while (n - 1) color (pushColor color s))"
  by pat_completeness auto
termination
  by (relation "measure (\<lambda>(n, color, s). unat n)")
     (auto simp: unat_minus_one unat_gt_0)

declare push_while.simps [simp del]

definition drawFastVLine ::
  "st7735_h \<Rightarrow> int16_t \<Rightarrow> int16_t \<Rightarrow> int16_t \<Rightarrow> uint16_t \<Rightarrow> display \<Rightarrow> display" where
  "drawFastVLine hdr x y h color s =
     (if sint x \<ge> uint (width s) \<or> sint y \<ge> uint (height s) then s
      else
        (let h1 = (if sint y + sint h - 1 \<ge> uint (height s)
                   then word_of_int (uint (height s) - sint y) else h);
             s1 = setAddrWindow hdr (ucast x) (ucast y) (ucast x)
                    (word_of_int (sint y + sint h1 - 1)) s
         in push_while h1 color s1))"

definition drawFastHLine ::
  "st7735_h \<Rightarrow> int16_t \<Rightarrow> int16_t \<Rightarrow> int16_t \<Rightarrow> uint16_t \<Rightarrow> display \<Rightarrow> display" where
  "drawFastHLine hdr x y w color s =
     (if sint x \<ge> uint (width s) \<or> sint y \<ge> uint (height s) then s
      else
        (let w1 = (if sint x + sint w - 1 \<ge> uint (width s)
                   then word_of_int (uint (width s) - sint x) else w);
             s1 = setAddrWindow hdr (ucast x) (ucast y)
                    (word_of_int (sint x + sint w1 - 1)) (ucast y) s
         in push_while w1 color s1))"

text \<open>
  The loops of \<open>fillRect\<close>: \<open>for(x=w; x>0; x--) pushColor(color)\<close> inside
  \<open>for(y=h; y>0; y--)\<close>, with the signed comparison of the source.
\<close>

function fillRect_cols :: "int16_t \<Rightarrow> uint16_t \<Rightarrow> display \<Rightarrow> display" where
  "fillRect_cols x color s =
     (if 0 < sint x then fillRect_cols (x - 1) color (pushColor color s) else s)"
  by pat_completeness auto
termination
proof (relation "measure (\<lambda>(x, color, s). nat (sint x))")
  fix x :: int16_t and color :: uint16_t and s :: display
  assume pos: "0 < sint x"
  have "sint x < 2 ^ 15"
    using sint_lt [of x] by simp
  with pos have "sint (x - 1) = sint x - 1"
    by (simp add: sint_word_ariths signed_take_bit_int_eq_self)
  with pos show "((x - 1, color, pushColor color s), (x, color, s))
      \<in> measure (\<lambda>(x, color, s). nat (sint x))"
    by simp
qed simp

declare fillRect_cols.simps [simp del]

function fillRect_rows :: "int16_t \<Rightarrow> int16_t \<Rightarrow> uint16_t \<Rightarrow> display \<Rightarrow> display" where
  "fillRect_rows y w color s =
     (if 0 < sint y then fillRect_rows (y - 1) w color (fillRect_cols w color s) else s)"
  by pat_completeness auto
termination
proof (relation "measure (\<lambda>(y, w, color, s). nat (sint y))")
  fix y w :: int16_t and color :: uint16_t and s :: display
  assume pos: "0 < sint y"
  have "sint y < 2 ^ 15"
    using sint_lt [of y] by simp
  with pos have "sint (y - 1) = sint y - 1"
    by (simp add: sint_word_ariths signed_take_bit_int_eq_self)
  with pos show "((y - 1, w, color, fillRect_cols w color s), (y, w, color, s))
      \<in> measure (\<lambda>(y, w, color, s). nat (sint y))"
    by simp
qed simp

declare fillRect_rows.simps [simp del]

definition fillRect ::
  "st7735_h \<Rightarrow> int16_t \<Rightarrow> int16_t \<Rightarrow> int16_t \<Rightarrow> int16_t \<Rightarrow> uint16_t \<Rightarrow> display \<Rightarrow> display" where
  "fillRect hdr x y w h color s =
     (if sint x \<ge> uint (width s) \<or> sint y \<ge> uint (height s) then s
      else
        (let w1 = (if sint x + sint w - 1 \<ge> uint (width s)
                   then word_of_int (uint (width s) - sint x) else w);
             h1 = (if sint y + sint h - 1 \<ge> uint (height s)
                   then word_of_int (uint (height s) - sint y) else h);
             s1 = setAddrWindow hdr (ucast x) (ucast y)
                    (word_of_int (sint x + sint w1 - 1))
                    (word_of_int (sint y + sint h1 - 1)) s
         in fillRect_rows h1 w1 color s1))"

text \<open>\<open>_width\<close> and \<open>_height\<close> are passed as \<open>int16_t\<close>: the same 16 bits.\<close>

definition fillScreen :: "st7735_h \<Rightarrow> uint16_t \<Rightarrow> display \<Rightarrow> display" where
  "fillScreen hdr color s = fillRect hdr 0 0 (width s) (height s) color s"

subsection \<open>Rotation\<close>

definition MADCTL_MY :: uint8_t where "MADCTL_MY = 0x80"
definition MADCTL_MX :: uint8_t where "MADCTL_MX = 0x40"
definition MADCTL_MV :: uint8_t where "MADCTL_MV = 0x20"
definition MADCTL_ML :: uint8_t where "MADCTL_ML = 0x10"
definition MADCTL_RGB :: uint8_t where "MADCTL_RGB = 0x00"
definition MADCTL_BGR :: uint8_t where "MADCTL_BGR = 0x08"
definition MADCTL_MH :: uint8_t where "MADCTL_MH = 0x04"

text \<open>
  The \<open>switch\<close> is a chain of tests in the order of its cases; the last \<open>else\<close> is the
  \<open>default\<close> branch, which returns after the command byte alone.
\<close>

definition setRotation :: "st7735_h \<Rightarrow> uint8_t \<Rightarrow> display \<Rightarrow> display" where
  "setRotation h m s =
     (let rotation = m mod 4;
          s1 = st7735_send_cmd (ST7735_MADCTL h) s
      in if rotation = 0 then
           (st7735_send_data (MADCTL_MX OR MADCTL_MY OR MADCTL_RGB) s1)
             \<lparr>width := ST7735_TFTWIDTH h, height := ST7735_TFTHEIGHT h\<rparr>
         else if rotation = 1 then
           (st7735_send_data (MADCTL_MY OR MADCTL_MV OR MADCTL_RGB) s1)
             \<lparr>width := ST7735_TFTHEIGHT h, height := ST7735_TFTWIDTH h\<rparr>
         else if rotation = 2 then
           (st7735_send_data MADCTL_RGB s1)
             \<lparr>width := ST7735_TFTWIDTH h, height := ST7735_TFTHEIGHT h\<rparr>
         else if rotation = 3 then
           (st7735_send_data (MADCTL_MX OR MADCTL_MV OR MADCTL_RGB) s1)
             \<lparr>width := ST7735_TFTHEIGHT h, height := ST7735_TFTWIDTH h\<rparr>
         else s1)"

definition get_height :: "display \<Rightarrow> uint8_t" where
  "get_height s = ucast (height s)"

definition get_width :: "display \<Rightarrow> uint8_t" where
  "get_width s = ucast (width s)"

subsection \<open>Sequences of calls\<close>

text \<open>
  The operations an application may call after the initialisation, and the state after
  a call. \<open>get_width\<close> and \<open>get_height\<close> only read the state.
\<close>

datatype call =
    SetRotation uint8_t
  | SetAddrWindow uint8_t uint8_t uint8_t uint8_t
  | PushColor uint16_t
  | DrawPixel int16_t int16_t uint16_t
  | DrawFastVLine int16_t int16_t int16_t uint16_t
  | DrawFastHLine int16_t int16_t int16_t uint16_t
  | FillRect int16_t int16_t int16_t int16_t uint16_t
  | FillScreen uint16_t
  | GetWidth
  | GetHeight

fun exec_call :: "st7735_h \<Rightarrow> display \<Rightarrow> call \<Rightarrow> display" where
  "exec_call hdr s (SetRotation m) = setRotation hdr m s"
| "exec_call hdr s (SetAddrWindow x0 y0 x1 y1) = setAddrWindow hdr x0 y0 x1 y1 s"
| "exec_call hdr s (PushColor color) = pushColor color s"
| "exec_call hdr s (DrawPixel x y color) = drawPixel hdr x y color s"
| "exec_call hdr s (DrawFastVLine x y h color) = drawFastVLine hdr x y h color s"
| "exec_call hdr s (DrawFastHLine x y w color) = drawFastHLine hdr x y w color s"
| "exec_call hdr s (FillRect x y w h color) = fillRect hdr x y w h color s"
| "exec_call hdr s (FillScreen color) = fillScreen hdr color s"
| "exec_call hdr s GetWidth = (let r = get_width s in s)"
| "exec_call hdr s GetHeight = (let r = get_height s in s)"

subsection \<open>What the port receives\<close>

text \<open>The events of \<open>n\<close> calls of \<open>pushColor\<close>: two data bytes each, high byte first.\<close>

definition pushes :: "nat \<Rightarrow> uint16_t \<Rightarrow> event list" where
  "pushes n color =
     concat (replicate n [Data (ucast (drop_bit 8 color)), Data (ucast (color AND 0xff))])"

subsection \<open>The table format as the specification describes it\<close>

text \<open>
  A command entry of the specification: an opcode, its argument bytes, and the encoded
  delay byte when the delay flag is set. \<open>encode_table\<close> lays a list of entries out in
  the byte format of the tables; \<open>entry_events\<close> is what the specification says a
  replay of the entry does: the opcode as a command, each argument as data, and a sleep
  of 500 ms for the delay byte 255 and of as many milliseconds as the byte says
  otherwise.
\<close>

record entry =
  e_opcode :: uint8_t
  e_args :: "uint8_t list"
  e_delay :: "uint8_t option"

definition encode_entry :: "entry \<Rightarrow> uint8_t list" where
  "encode_entry e =
     [e_opcode e,
      word_of_nat (length (e_args e)) OR (case e_delay e of None \<Rightarrow> 0 | Some d \<Rightarrow> DELAY)]
     @ e_args e
     @ (case e_delay e of None \<Rightarrow> [] | Some d \<Rightarrow> [d])"

definition encode_table :: "entry list \<Rightarrow> uint8_t list" where
  "encode_table es = word_of_nat (length es) # concat (map encode_entry es)"

definition entry_events :: "entry \<Rightarrow> event list" where
  "entry_events e =
     Cmd (e_opcode e) # map Data (e_args e)
     @ (case e_delay e of
          None \<Rightarrow> []
        | Some d \<Rightarrow> [Delay (if d = 255 then 500 else ucast d)])"

subsection \<open>What the initialisation sends\<close>

text \<open>
  The events of the reset protocol of \<open>commonInit\<close> and of a replay of each of the four
  tables, written out; the lemmas \<open>commonInit_port\<close> and \<open>commandList_Rcmd1\<close> to
  \<open>commandList_Rcmd3\<close> below prove that the code sends exactly these.
\<close>

definition reset_events :: "st7735_h \<Rightarrow> event list" where
  "reset_events h =
     CS0 # (if LCD_SOFT_RESET h
            then [Cmd (ST7735_SWRESET h), Delay 500]
            else [RST1, Delay 500, RST0, Delay 500, RST1, Delay 500])"

definition Rcmd1_events :: "st7735_h \<Rightarrow> event list" where
  "Rcmd1_events h = [
     Cmd (ST7735_SWRESET h), Delay 150,
     Cmd (ST7735_SLPOUT h), Delay 500,
     Cmd (ST7735_FRMCTR1 h), Data 0x01, Data 0x2C, Data 0x2D,
     Cmd (ST7735_FRMCTR2 h), Data 0x01, Data 0x2C, Data 0x2D,
     Cmd (ST7735_FRMCTR3 h), Data 0x01, Data 0x2C, Data 0x2D, Data 0x01, Data 0x2C, Data 0x2D,
     Cmd (ST7735_INVCTR h), Data 0x07,
     Cmd (ST7735_PWCTR1 h), Data 0xA2, Data 0x02, Data 0x84,
     Cmd (ST7735_PWCTR2 h), Data 0xC5,
     Cmd (ST7735_PWCTR3 h), Data 0x0A, Data 0x00,
     Cmd (ST7735_PWCTR4 h), Data 0x8A, Data 0x2A,
     Cmd (ST7735_PWCTR5 h), Data 0x8A, Data 0xEE,
     Cmd (ST7735_VMCTR1 h), Data 0x0E,
     Cmd (ST7735_INVOFF h),
     Cmd (ST7735_MADCTL h), Data 0xC0,
     Cmd (ST7735_COLMOD h), Data 0x05, Delay 10]"

definition Rcmd2green_events :: "st7735_h \<Rightarrow> event list" where
  "Rcmd2green_events h = [
     Cmd (ST7735_CASET h), Data 0x00, Data 0x02, Data 0x00, Data 0x81,
     Cmd (ST7735_RASET h), Data 0x00, Data 0x01, Data 0x00, Data 0xA0]"

definition Rcmd2red_events :: "st7735_h \<Rightarrow> event list" where
  "Rcmd2red_events h = [
     Cmd (ST7735_CASET h), Data 0x00, Data 0x00, Data 0x00, Data 0x7F,
     Cmd (ST7735_RASET h), Data 0x00, Data 0x00, Data 0x00, Data 0x9F]"

definition Rcmd3_events :: "st7735_h \<Rightarrow> event list" where
  "Rcmd3_events h = [
     Cmd (ST7735_GMCTRP1 h),
       Data 0x02, Data 0x1c, Data 0x07, Data 0x12,
       Data 0x37, Data 0x32, Data 0x29, Data 0x2d,
       Data 0x29, Data 0x25, Data 0x2B, Data 0x39,
       Data 0x00, Data 0x01, Data 0x03, Data 0x10,
     Cmd (ST7735_GMCTRN1 h),
       Data 0x03, Data 0x1d, Data 0x07, Data 0x06,
       Data 0x2E, Data 0x2C, Data 0x29, Data 0x2D,
       Data 0x2E, Data 0x2E, Data 0x37, Data 0x3F,
       Data 0x00, Data 0x00, Data 0x02, Data 0x10,
     Cmd (ST7735_NORON h), Delay 10,
     Cmd (ST7735_DISPON h), Delay 100]"

text \<open>
  The data bytes that a trace sends directly after the command byte \<open>c\<close>, in order:
  with \<open>c\<close> the memory-access-control opcode, the memory-access-control bytes sent.
\<close>

fun data_after :: "uint8_t \<Rightarrow> event list \<Rightarrow> uint8_t list" where
  "data_after c (Cmd c' # Data d # es) =
     (if c' = c then d # data_after c es else data_after c es)"
| "data_after c (e # es) = data_after c es"
| "data_after c [] = []"

section \<open>Properties\<close>

subsection \<open>What each operation sends\<close>

lemma setAddrWindow_port:
  "setAddrWindow h x0 y0 x1 y1 s = s\<lparr>port := port s @
     [Cmd (ST7735_CASET h),
      Data 0, Data (word_of_int (uint x0 + colstart s)),
      Data 0, Data (word_of_int (uint x1 + colstart s)),
      Cmd (ST7735_RASET h),
      Data 0, Data (word_of_int (uint y0 + rowstart s)),
      Data 0, Data (word_of_int (uint y1 + rowstart s)),
      Cmd (ST7735_RAMWR h)]\<rparr>"
  by (simp add: setAddrWindow_def st7735_send_cmd_def st7735_send_data_def)

lemma pushColor_port:
  "pushColor color s = s\<lparr>port := port s @
     [Data (ucast (drop_bit 8 color)), Data (ucast (color AND 0xff))]\<rparr>"
  by (simp add: pushColor_def st7735_send_data_def)

lemma pushes_Suc:
  "pushes (Suc n) color =
     [Data (ucast (drop_bit 8 color)), Data (ucast (color AND 0xff))] @ pushes n color"
  by (simp add: pushes_def)

lemma pushes_add: "pushes (m + n) color = pushes m color @ pushes n color"
  by (simp add: pushes_def replicate_add)

lemma push_while_port:
  "push_while n color s = s\<lparr>port := port s @ pushes (unat n) color\<rparr>"
proof (induction n color s rule: push_while.induct)
  case (1 n color s)
  show ?case
  proof (cases "n = 0")
    case True
    then show ?thesis by (subst push_while.simps) (simp add: pushes_def)
  next
    case False
    then have "unat n = Suc (unat (n - 1))"
      by (simp add: unat_minus_one unat_gt_0)
    with False 1 show ?thesis
      by (subst push_while.simps) (simp add: pushColor_port pushes_Suc)
  qed
qed

lemma sint_dec: "0 < sint (x :: int16_t) \<Longrightarrow> nat (sint x) = Suc (nat (sint (x - 1)))"
proof -
  assume pos: "0 < sint x"
  have "sint x < 2 ^ 15"
    using sint_lt [of x] by simp
  with pos have "sint (x - 1) = sint x - 1"
    by (simp add: sint_word_ariths signed_take_bit_int_eq_self)
  with pos show ?thesis by simp
qed

lemma fillRect_cols_port:
  "fillRect_cols x color s = s\<lparr>port := port s @ pushes (nat (sint x)) color\<rparr>"
proof (induction x color s rule: fillRect_cols.induct)
  case (1 x color s)
  show ?case
  proof (cases "0 < sint x")
    case True
    with 1 sint_dec [OF True] show ?thesis
      by (subst fillRect_cols.simps) (simp add: pushColor_port pushes_Suc)
  next
    case False
    then show ?thesis by (subst fillRect_cols.simps) (simp add: pushes_def)
  qed
qed

lemma fillRect_rows_port:
  "fillRect_rows y w color s = s\<lparr>port := port s @ pushes (nat (sint y) * nat (sint w)) color\<rparr>"
proof (induction y w color s rule: fillRect_rows.induct)
  case (1 y w color s)
  show ?case
  proof (cases "0 < sint y")
    case True
    with 1 sint_dec [OF True] show ?thesis
      by (subst fillRect_rows.simps) (simp add: fillRect_cols_port pushes_add)
  next
    case False
    then show ?thesis by (subst fillRect_rows.simps) (simp add: pushes_def)
  qed
qed

subsection \<open>Replaying a command table\<close>

lemma low7: "n < 128 \<Longrightarrow> take_bit 7 (word_of_nat n :: 8 word) = word_of_nat n"
  by (simp add: take_bit_of_nat take_bit_nat_eq_self)

lemma c80: "(0x80 :: 8 word) = push_bit 7 1"
  by simp

lemma not80: "NOT (0x80 :: 8 word) = mask 7"
  by (simp add: mask_eq_exp_minus_1)

lemma take_and_push: "take_bit n (x :: 'a::len word) AND push_bit n y = 0"
  by (rule bit_word_eqI) (auto simp: bit_simps)

lemma and_not_DELAY:
  assumes h: "take_bit 7 (x :: 8 word) = x" shows "x AND NOT DELAY = x"
proof -
  have "x AND NOT DELAY = x AND mask 7" by (simp only: DELAY_def not80)
  also have "\<dots> = take_bit 7 x" by (simp only: take_bit_eq_mask)
  finally show ?thesis using h by simp
qed

lemma and_DELAY:
  assumes h: "take_bit 7 (x :: 8 word) = x" shows "x AND DELAY = 0"
proof -
  have "x AND DELAY = take_bit 7 x AND push_bit 7 1" by (simp only: DELAY_def c80 h)
  then show ?thesis by (simp only: take_and_push)
qed

lemma or_DELAY_and_not: "take_bit 7 (x :: 8 word) = x \<Longrightarrow> (x OR DELAY) AND NOT DELAY = x"
  by (simp add: bit.conj_disj_distrib2 and_not_DELAY)

lemma or_DELAY_and: "((x :: 8 word) OR DELAY) AND DELAY = DELAY"
  by (simp add: DELAY_def)

lemma of_nat_Suc_neq0: "Suc n < 256 \<Longrightarrow> (word_of_nat (Suc n) :: 8 word) \<noteq> 0"
  by (simp add: word_of_nat_eq_0_iff dvd_eq_mod_eq_0 del: of_nat_Suc)

lemma ucast_eq_255: "(ucast (d :: 8 word) :: 16 word) = 255 \<longleftrightarrow> d = 255"
proof
  assume "(ucast d :: 16 word) = 255"
  then have "unat (ucast d :: 16 word) = unat (255 :: 16 word)" by simp
  moreover have "unat d < 2 ^ 16"
    using unsigned_less [of d, where 'a = nat] by simp
  ultimately have "unat d = 255"
    by (simp add: unsigned_ucast_eq take_bit_nat_eq_self)
  then show "d = 255" by (simp add: word_unat_eq_iff)
qed simp

lemma send_args_map:
  "length as < 256 \<Longrightarrow>
   send_args (word_of_nat (length as)) (as @ rest) s
     = Some (rest, s\<lparr>port := port s @ map Data as\<rparr>)"
proof (induction as arbitrary: s)
  case Nil
  then show ?case by (cases rest) simp_all
next
  case (Cons a as)
  from Cons.prems have ne: "(word_of_nat (Suc (length as)) :: 8 word) \<noteq> 0"
    by (intro of_nat_Suc_neq0) simp
  have dec: "(word_of_nat (Suc (length as)) :: 8 word) - 1 = word_of_nat (length as)"
    by simp
  from Cons.prems have "length as < 256" by simp
  from Cons.IH [OF this, of "st7735_send_data a s"] ne dec show ?case
    by (simp add: st7735_send_data_def del: of_nat_Suc)
qed

lemma command_loop_entry:
  assumes n: "Suc k < 256" and a: "length (e_args e) < 128"
  shows "command_loop (word_of_nat (Suc k)) (encode_entry e @ rest) s
       = command_loop (word_of_nat k) rest (s\<lparr>port := port s @ entry_events e\<rparr>)"
proof -
  let ?n = "word_of_nat (length (e_args e)) :: 8 word"
  have t7: "take_bit 7 ?n = ?n" using a by (rule low7)
  have len: "length (e_args e) < 256" using a by simp
  have ne: "(word_of_nat (Suc k) :: 8 word) \<noteq> 0" using n by (rule of_nat_Suc_neq0)
  have dec: "(word_of_nat (Suc k) :: 8 word) - 1 = word_of_nat k" by simp
  show ?thesis
  proof (cases "e_delay e")
    case None
    have m1: "?n AND DELAY = 0" using t7 by (rule and_DELAY)
    have m2: "?n AND NOT DELAY = ?n" using t7 by (rule and_not_DELAY)
    from None ne dec m1 m2 send_args_map [OF len] show ?thesis
      by (subst command_loop.simps)
         (simp add: encode_entry_def entry_events_def st7735_send_cmd_def del: of_nat_Suc)
  next
    case (Some d)
    have m1: "(?n OR DELAY) AND DELAY = DELAY" by (rule or_DELAY_and)
    have m2: "(?n OR DELAY) AND NOT DELAY = ?n" using t7 by (rule or_DELAY_and_not)
    have m3: "(ucast DELAY :: 16 word) \<noteq> 0" by (simp add: DELAY_def)
    from Some ne dec m1 m2 m3 send_args_map [OF len] show ?thesis
      by (subst command_loop.simps)
         (simp add: encode_entry_def entry_events_def st7735_send_cmd_def delay_ms_def
            Let_def ucast_eq_255 del: of_nat_Suc)
  qed
qed

lemma command_loop_entries:
  "length es < 256 \<Longrightarrow> \<forall>e \<in> set es. length (e_args e) < 128 \<Longrightarrow>
   command_loop (word_of_nat (length es)) (concat (map encode_entry es) @ rest) s
     = Some (s\<lparr>port := port s @ concat (map entry_events es)\<rparr>)"
proof (induction es arbitrary: s)
  case Nil
  show ?case by (subst command_loop.simps) simp
next
  case (Cons e es)
  from Cons.prems have n: "Suc (length es) < 256" and a: "length (e_args e) < 128"
    and l: "length es < 256" and as: "\<forall>e \<in> set es. length (e_args e) < 128"
    by simp_all
  from command_loop_entry [OF n a] Cons.IH [OF l as] show ?case
    by (simp del: of_nat_Suc)
qed

lemma commandList_entries:
  "length es < 256 \<Longrightarrow> \<forall>e \<in> set es. length (e_args e) < 128 \<Longrightarrow>
   commandList (encode_table es) s
     = Some (s\<lparr>port := port s @ concat (map entry_events es)\<rparr>)"
  using command_loop_entries [of es "[]" s]
  by (simp add: commandList_def encode_table_def)

text \<open>
  Claim C4. Replaying the table that encodes the entries \<open>es\<close> sends, for each entry
  in order, its opcode as a command and its arguments as data; where the entry has a
  delay byte, it then sleeps 500 ms if the byte is 255 and exactly as many milliseconds
  as the byte says otherwise (0 included). The count byte of the table bounds the number
  of entries by 255 and the seven count bits bound the arguments of an entry by 127.
\<close>

theorem C4_delay_sentinel:
  "length es < 256 \<Longrightarrow> \<forall>e \<in> set es. length (e_args e) < 128 \<Longrightarrow>
   commandList (encode_table es) s
     = Some (s\<lparr>port := port s @ concat (map entry_events es)\<rparr>)"
  by (rule commandList_entries)

theorem C4_delay_sentinel_witness:
  "length [\<lparr>e_opcode = 0x11, e_args = [], e_delay = Some 255\<rparr>,
           \<lparr>e_opcode = 0x3A, e_args = [0x05], e_delay = Some 10\<rparr>,
           \<lparr>e_opcode = 0x29, e_args = [], e_delay = Some 0\<rparr>] < 256
   \<and> list_all (\<lambda>e. length (e_args e) < 128)
         [\<lparr>e_opcode = 0x11, e_args = [], e_delay = Some 255\<rparr>,
          \<lparr>e_opcode = 0x3A, e_args = [0x05], e_delay = Some 10\<rparr>,
          \<lparr>e_opcode = 0x29, e_args = [], e_delay = Some 0\<rparr>]
   \<and> commandList [3, 0x11, 0x80, 255, 0x3A, 0x81, 0x05, 10, 0x29, 0x80, 0]
         (initial_display sample_h)
       = Some ((initial_display sample_h)\<lparr>port :=
           [Cmd 0x11, Delay 500, Cmd 0x3A, Data 0x05, Delay 10, Cmd 0x29, Delay 0]\<rparr>)"
proof -
  let ?es = "[\<lparr>e_opcode = 0x11, e_args = [], e_delay = Some 255\<rparr>,
           \<lparr>e_opcode = 0x3A, e_args = [0x05], e_delay = Some 10\<rparr>,
           \<lparr>e_opcode = 0x29, e_args = [], e_delay = Some 0\<rparr>]"
  have h1: "length ?es < 256" by simp
  have h2: "\<forall>e \<in> set ?es. length (e_args e) < 128" by simp
  show ?thesis
    using h1 h2 C4_delay_sentinel [OF h1 h2, of "initial_display sample_h"]
    by (simp add: encode_table_def encode_entry_def entry_events_def DELAY_def
        initial_display_def)
qed

subsection \<open>Initialisation\<close>

lemma commandList_Rcmd2red:
  "commandList (Rcmd2red h) s = Some (s\<lparr>port := port s @ Rcmd2red_events h\<rparr>)"
proof -
  let ?es = "[\<lparr>e_opcode = ST7735_CASET h, e_args = [0x00, 0x00, 0x00, 0x7F], e_delay = None\<rparr>,
              \<lparr>e_opcode = ST7735_RASET h, e_args = [0x00, 0x00, 0x00, 0x9F], e_delay = None\<rparr>]"
  have "Rcmd2red h = encode_table ?es"
    by (simp add: Rcmd2red_def encode_table_def encode_entry_def)
  moreover have "commandList (encode_table ?es) s
      = Some (s\<lparr>port := port s @ concat (map entry_events ?es)\<rparr>)"
    by (rule commandList_entries) simp_all
  ultimately show ?thesis
    by (simp add: entry_events_def Rcmd2red_events_def)
qed

lemma commandList_Rcmd2green:
  "commandList (Rcmd2green h) s = Some (s\<lparr>port := port s @ Rcmd2green_events h\<rparr>)"
proof -
  let ?es = "[\<lparr>e_opcode = ST7735_CASET h, e_args = [0x00, 0x02, 0x00, 0x81], e_delay = None\<rparr>,
              \<lparr>e_opcode = ST7735_RASET h, e_args = [0x00, 0x01, 0x00, 0xA0], e_delay = None\<rparr>]"
  have "Rcmd2green h = encode_table ?es"
    by (simp add: Rcmd2green_def encode_table_def encode_entry_def)
  moreover have "commandList (encode_table ?es) s
      = Some (s\<lparr>port := port s @ concat (map entry_events ?es)\<rparr>)"
    by (rule commandList_entries) simp_all
  ultimately show ?thesis
    by (simp add: entry_events_def Rcmd2green_events_def)
qed

lemma commandList_Rcmd3:
  "commandList (Rcmd3 h) s = Some (s\<lparr>port := port s @ Rcmd3_events h\<rparr>)"
proof -
  let ?es = "[\<lparr>e_opcode = ST7735_GMCTRP1 h,
                e_args = [0x02, 0x1c, 0x07, 0x12, 0x37, 0x32, 0x29, 0x2d,
                          0x29, 0x25, 0x2B, 0x39, 0x00, 0x01, 0x03, 0x10],
                e_delay = None\<rparr>,
              \<lparr>e_opcode = ST7735_GMCTRN1 h,
                e_args = [0x03, 0x1d, 0x07, 0x06, 0x2E, 0x2C, 0x29, 0x2D,
                          0x2E, 0x2E, 0x37, 0x3F, 0x00, 0x00, 0x02, 0x10],
                e_delay = None\<rparr>,
              \<lparr>e_opcode = ST7735_NORON h, e_args = [], e_delay = Some 10\<rparr>,
              \<lparr>e_opcode = ST7735_DISPON h, e_args = [], e_delay = Some 100\<rparr>]"
  have "Rcmd3 h = encode_table ?es"
    by (simp add: Rcmd3_def encode_table_def encode_entry_def DELAY_def)
  moreover have "commandList (encode_table ?es) s
      = Some (s\<lparr>port := port s @ concat (map entry_events ?es)\<rparr>)"
    by (rule commandList_entries) simp_all
  ultimately show ?thesis
    by (simp add: entry_events_def Rcmd3_events_def)
qed

lemma commandList_Rcmd1:
  "commandList (Rcmd1 h) s = Some (s\<lparr>port := port s @ Rcmd1_events h\<rparr>)"
proof -
  let ?es = "[\<lparr>e_opcode = ST7735_SWRESET h, e_args = [], e_delay = Some 150\<rparr>,
              \<lparr>e_opcode = ST7735_SLPOUT h, e_args = [], e_delay = Some 255\<rparr>,
              \<lparr>e_opcode = ST7735_FRMCTR1 h, e_args = [0x01, 0x2C, 0x2D], e_delay = None\<rparr>,
              \<lparr>e_opcode = ST7735_FRMCTR2 h, e_args = [0x01, 0x2C, 0x2D], e_delay = None\<rparr>,
              \<lparr>e_opcode = ST7735_FRMCTR3 h, e_args = [0x01, 0x2C, 0x2D, 0x01, 0x2C, 0x2D],
                e_delay = None\<rparr>,
              \<lparr>e_opcode = ST7735_INVCTR h, e_args = [0x07], e_delay = None\<rparr>,
              \<lparr>e_opcode = ST7735_PWCTR1 h, e_args = [0xA2, 0x02, 0x84], e_delay = None\<rparr>,
              \<lparr>e_opcode = ST7735_PWCTR2 h, e_args = [0xC5], e_delay = None\<rparr>,
              \<lparr>e_opcode = ST7735_PWCTR3 h, e_args = [0x0A, 0x00], e_delay = None\<rparr>,
              \<lparr>e_opcode = ST7735_PWCTR4 h, e_args = [0x8A, 0x2A], e_delay = None\<rparr>,
              \<lparr>e_opcode = ST7735_PWCTR5 h, e_args = [0x8A, 0xEE], e_delay = None\<rparr>,
              \<lparr>e_opcode = ST7735_VMCTR1 h, e_args = [0x0E], e_delay = None\<rparr>,
              \<lparr>e_opcode = ST7735_INVOFF h, e_args = [], e_delay = None\<rparr>,
              \<lparr>e_opcode = ST7735_MADCTL h, e_args = [0xC0], e_delay = None\<rparr>,
              \<lparr>e_opcode = ST7735_COLMOD h, e_args = [0x05], e_delay = Some 10\<rparr>]"
  have "Rcmd1 h = encode_table ?es"
    by (simp add: Rcmd1_def encode_table_def encode_entry_def DELAY_def)
  moreover have "commandList (encode_table ?es) s
      = Some (s\<lparr>port := port s @ concat (map entry_events ?es)\<rparr>)"
    by (rule commandList_entries) simp_all
  ultimately show ?thesis
    by (simp add: entry_events_def Rcmd1_events_def)
qed

lemma commonInit_port:
  "commonInit h (Some (Rcmd1 h)) s
     = Some (s\<lparr>port := port s @ reset_events h @ Rcmd1_events h\<rparr>)"
  by (simp add: commonInit_def commandList_Rcmd1 reset_events_def lcd_cs0_def lcd_rst0_def
      lcd_rst1_def delay_ms_def st7735_send_cmd_def)

lemma initR_eq:
  "initR h options s =
     Some (s\<lparr>colstart := (if options = INITR_GREENTAB h then 2 else colstart s),
              rowstart := (if options = INITR_GREENTAB h then 1 else rowstart s),
              port := port s @ Delay 50 # reset_events h @ Rcmd1_events h
                @ (if options = INITR_GREENTAB h then Rcmd2green_events h else Rcmd2red_events h)
                @ Rcmd3_events h
                @ (if options = INITR_BLACKTAB h then [Cmd (ST7735_MADCTL h), Data 0xC0] else [])\<rparr>)"
  by (simp add: initR_def commonInit_port commandList_Rcmd2green commandList_Rcmd2red
      commandList_Rcmd3 delay_ms_def st7735_send_cmd_def st7735_send_data_def)

subsection \<open>The sample panel\<close>

lemma sample_display:
  "width (initial_display sample_h) = 128" "height (initial_display sample_h) = 160"
  "colstart (initial_display sample_h) = 0" "rowstart (initial_display sample_h) = 0"
  "port (initial_display sample_h) = []"
  by (simp_all add: initial_display_def sample_h_def)

subsection \<open>Rotation\<close>

lemma rotation_cases:
  "(m :: 8 word) mod 4 = 0 \<or> m mod 4 = 1 \<or> m mod 4 = 2 \<or> m mod 4 = 3"
proof -
  have "unat (m mod 4) < 4"
    by (simp add: unat_mod)
  then have "unat (m mod 4) = 0 \<or> unat (m mod 4) = 1 \<or> unat (m mod 4) = 2 \<or> unat (m mod 4) = 3"
    by arith
  then show ?thesis
    by (simp add: word_unat_eq_iff)
qed

lemma rotation_plus4: "((m :: 8 word) + 4) mod 4 = m mod 4"
proof -
  have "unat ((m + 4) mod 4) = ((unat m + 4) mod 256) mod 4"
    by (simp add: unat_mod unat_word_ariths)
  also have "\<dots> = unat m mod 4"
    by (simp add: mod_mod_cancel)
  finally show ?thesis
    by (simp add: word_unat_eq_iff unat_mod)
qed

lemma rotation_wrap: "(word_of_nat (unat (m :: 8 word) mod 4) :: 8 word) mod 4 = m mod 4"
proof -
  have "unat m mod 4 < 256"
    by (rule less_trans [of _ 4]) simp_all
  then have "unat (word_of_nat (unat m mod 4) :: 8 word) = unat m mod 4"
    by (simp add: unat_of_nat)
  then show ?thesis
    by (simp add: word_unat_eq_iff unat_mod)
qed

subsection \<open>The offsets under a call\<close>

lemma exec_call_offsets:
  "colstart (exec_call h s c) = colstart s \<and> rowstart (exec_call h s c) = rowstart s"
proof (cases c)
  case (SetRotation m)
  then show ?thesis
    by (simp add: setRotation_def Let_def st7735_send_cmd_def st7735_send_data_def)
next
  case (DrawPixel x y color)
  then show ?thesis
    by (simp add: drawPixel_def setAddrWindow_port pushColor_port)
next
  case (DrawFastVLine x y l color)
  then show ?thesis
    by (simp add: drawFastVLine_def Let_def setAddrWindow_port push_while_port)
next
  case (DrawFastHLine x y l color)
  then show ?thesis
    by (simp add: drawFastHLine_def Let_def setAddrWindow_port push_while_port)
next
  case (FillRect x y w l color)
  then show ?thesis
    by (simp add: fillRect_def Let_def setAddrWindow_port fillRect_rows_port)
next
  case (FillScreen color)
  then show ?thesis
    by (simp add: fillScreen_def fillRect_def Let_def setAddrWindow_port fillRect_rows_port)
qed (simp_all add: setAddrWindow_port pushColor_port)

subsection \<open>Conversions between the integer types\<close>

lemma sint_eq_uint16: "uint (w :: 16 word) < 2 ^ 15 \<Longrightarrow> sint w = uint w"
proof -
  assume b: "uint w < 2 ^ 15"
  have nn: "- (2 ^ 15) \<le> uint w"
    by (rule order_trans [of _ 0]) simp_all
  have "sint w = signed_take_bit 15 (uint w)"
    by (simp add: sint_uint)
  also have "\<dots> = uint w"
    using nn b by (rule signed_take_bit_int_eq_self)
  finally show ?thesis .
qed

lemma scast_16_8: "(scast (v :: 16 word) :: 8 word) = ucast v"
proof -
  have "take_bit 8 (sint v) = take_bit 8 (uint v)"
    by (simp add: sint_uint take_bit_signed_take_bit)
  then have "(word_of_int (sint v) :: 8 word) = word_of_int (uint v)"
    unfolding word_of_int_eq_iff by simp
  then show ?thesis
    by simp
qed

lemma ucast_16_8_diff: "(ucast (a - b :: 16 word) :: 8 word) = ucast a - ucast b"
proof -
  have "take_bit 8 (uint (a - b)) = take_bit 8 (uint a - uint b)"
    by (simp add: uint_word_ariths take_bit_eq_mod mod_mod_cancel)
  then have "(word_of_int (uint (a - b)) :: 8 word) = word_of_int (uint a - uint b)"
    unfolding word_of_int_eq_iff by simp
  then show ?thesis
    by simp
qed

lemma unat_wi16: "0 \<le> k \<Longrightarrow> k < 2 ^ 16 \<Longrightarrow> unat (word_of_int k :: 16 word) = nat k"
  by (simp add: unat_eq_nat_uint uint_word_of_int)

lemma sint_wi16: "- (2 ^ 15) \<le> k \<Longrightarrow> k < 2 ^ 15 \<Longrightarrow> sint (word_of_int k :: 16 word) = k"
  by (simp add: sint_sbintrunc' signed_take_bit_int_eq_self)

subsection \<open>Closed forms of the filling functions\<close>

lemma pushes_length: "length (pushes n color) = 2 * n"
  by (induction n) (simp_all add: pushes_def)

lemma fillRect_port:
  "fillRect hdr x y w h color s =
     (if uint (width s) \<le> sint x \<or> uint (height s) \<le> sint y then s
      else
        (let w1 = (if uint (width s) \<le> sint x + sint w - 1
                   then word_of_int (uint (width s) - sint x) else w);
             h1 = (if uint (height s) \<le> sint y + sint h - 1
                   then word_of_int (uint (height s) - sint y) else h);
             s1 = setAddrWindow hdr (ucast x) (ucast y)
                    (word_of_int (sint x + sint w1 - 1))
                    (word_of_int (sint y + sint h1 - 1)) s
         in s1\<lparr>port := port s1 @ pushes (nat (sint h1) * nat (sint w1)) color\<rparr>))"
  unfolding fillRect_def Let_def fillRect_rows_port ..

lemma drawFastHLine_port:
  "drawFastHLine hdr x y w color s =
     (if uint (width s) \<le> sint x \<or> uint (height s) \<le> sint y then s
      else
        (let w1 = (if uint (width s) \<le> sint x + sint w - 1
                   then word_of_int (uint (width s) - sint x) else w);
             s1 = setAddrWindow hdr (ucast x) (ucast y)
                    (word_of_int (sint x + sint w1 - 1)) (ucast y) s
         in s1\<lparr>port := port s1 @ pushes (unat w1) color\<rparr>))"
  unfolding drawFastHLine_def Let_def push_while_port ..

lemma clamped_x1:
  "(word_of_int (sint (x :: int16_t) + sint (word_of_int (uint (W :: uint16_t) - sint x) :: int16_t) - 1) :: uint8_t)
     = word_of_int (uint W - 1)"
  by (simp add: scast_16_8 ucast_16_8_diff)

section \<open>The claims\<close>

text \<open>
  Claim C1, on the panel of \<open>sample_h\<close>: the call \<open>drawPixel(5, 7, 0xF800)\<close>, which is in
  bounds, sends one colour value as two data bytes, but the address window it sets
  before runs from column 5 to column 6 and from row 7 to row 8: the end coordinates are
  \<open>(x + 1, y + 1)\<close>, not \<open>(x, y)\<close>. The line and rectangle functions pass inclusive end
  coordinates (\<open>x + w - 1\<close>), so a window of one pixel would end at \<open>(x, y)\<close>.
\<close>

theorem C1_drawPixel_window_end:
  "port (drawPixel sample_h 5 7 0xF800 (initial_display sample_h))
     = [Cmd 0x2A, Data 0, Data 5, Data 0, Data 6,
        Cmd 0x2B, Data 0, Data 7, Data 0, Data 8,
        Cmd 0x2C, Data 0xF8, Data 0x00]"
  by (simp add: drawPixel_def setAddrWindow_port pushColor_port sample_display)
     (simp add: sample_h_def)

text \<open>
  Claim C2, on the panel of \<open>sample_h\<close>: the initialisation of the black variant leaves
  both offsets 0 and sends the memory-access-control command twice, once from \<open>Rcmd1\<close>
  and once more at the end. Both times the data byte is \<open>0xC0\<close>: the extra byte is the
  byte of \<open>Rcmd1\<close> again, and the colour-order bit \<open>MADCTL_BGR\<close> is not inverted.
\<close>

theorem C2_blacktab_madctl_unchanged:
  "map_option (\<lambda>s. (colstart s, rowstart s, data_after (ST7735_MADCTL sample_h) (port s)))
     (initR sample_h (INITR_BLACKTAB sample_h) (initial_display sample_h))
     = Some (0, 0, [0xC0, 0xC0])"
  by (simp add: initR_eq sample_display)
     (simp add: sample_h_def reset_events_def Rcmd1_events_def Rcmd2red_events_def
        Rcmd3_events_def)

text \<open>
  Claim C3, amended. \<open>drawPixel\<close> with a start coordinate outside the logical bounds on
  either side (\<open>x < 0\<close>, \<open>x \<ge> _width\<close>, \<open>y < 0\<close> or \<open>y \<ge> _height\<close>) leaves the state as
  it is and sends nothing. \<open>drawFastVLine\<close>, \<open>drawFastHLine\<close> and \<open>fillRect\<close> do so
  when the start coordinate is at or beyond the upper bound (\<open>x \<ge> _width\<close> or
  \<open>y \<ge> _height\<close>).
\<close>

theorem C3_out_of_bounds_skipped:
  "(sint x < 0 \<or> uint (width s) \<le> sint x \<or> sint y < 0 \<or> uint (height s) \<le> sint y
      \<longrightarrow> drawPixel hdr x y color s = s)
   \<and> (uint (width s) \<le> sint x \<or> uint (height s) \<le> sint y
      \<longrightarrow> drawFastVLine hdr x y h color s = s
        \<and> drawFastHLine hdr x y w color s = s
        \<and> fillRect hdr x y w h color s = s)"
  by (simp add: drawPixel_def drawFastVLine_def drawFastHLine_def fillRect_def)

theorem C3_out_of_bounds_skipped_witness:
  "drawPixel sample_h 200 0 0xF800 (initial_display sample_h) = initial_display sample_h
   \<and> drawFastVLine sample_h 200 0 5 0xF800 (initial_display sample_h) = initial_display sample_h
   \<and> drawFastHLine sample_h 200 0 5 0xF800 (initial_display sample_h) = initial_display sample_h
   \<and> fillRect sample_h 200 0 5 5 0xF800 (initial_display sample_h) = initial_display sample_h"
  using C3_out_of_bounds_skipped [of 200 "initial_display sample_h" 0 sample_h "0xF800" 5 5]
  by (simp add: sample_display)

text \<open>
  The claim C3 as first stated fails for a negative start coordinate of a line: the three
  functions with the rudimentary clipping test the upper bounds only. On the panel of
  \<open>sample_h\<close>, \<open>drawFastHLine(-1, 0, 5, 0xF800)\<close> sets an address window and pushes five
  colour values.
\<close>

theorem C3_negative_start_counterexample:
  "sint (- 1 :: int16_t) < 0
   \<and> port (drawFastHLine sample_h (- 1) 0 5 0xF800 (initial_display sample_h))
     = [Cmd 0x2A, Data 0, Data 0xFF, Data 0, Data 3,
        Cmd 0x2B, Data 0, Data 0, Data 0, Data 0,
        Cmd 0x2C,
        Data 0xF8, Data 0, Data 0xF8, Data 0, Data 0xF8, Data 0, Data 0xF8, Data 0,
        Data 0xF8, Data 0]"
proof -
  have p: "pushes 5 color = [Data (ucast (drop_bit 8 color)), Data (ucast (color AND 0xff)),
      Data (ucast (drop_bit 8 color)), Data (ucast (color AND 0xff)),
      Data (ucast (drop_bit 8 color)), Data (ucast (color AND 0xff)),
      Data (ucast (drop_bit 8 color)), Data (ucast (color AND 0xff)),
      Data (ucast (drop_bit 8 color)), Data (ucast (color AND 0xff))]" for color
    unfolding pushes_def by (simp add: numeral_eq_Suc)
  have "(- 1 :: 16 word) = 0xFFFF"
    by simp
  then have "(ucast (- 1 :: 16 word) :: 8 word) = ucast (0xFFFF :: 16 word)"
    by (simp only:)
  then have m1: "(ucast (- 1 :: 16 word) :: 8 word) = 255"
    by simp
  have "port (drawFastHLine sample_h (- 1) 0 5 0xF800 (initial_display sample_h))
      = [Cmd 0x2A, Data 0, Data 0xFF, Data 0, Data 3,
         Cmd 0x2B, Data 0, Data 0, Data 0, Data 0,
         Cmd 0x2C] @ pushes 5 0xF800"
    by (simp add: drawFastHLine_port sample_display setAddrWindow_port m1)
       (simp add: sample_h_def)
  then show ?thesis
    by (simp add: p)
qed

text \<open>
  Claim C5. \<open>setRotation(m + 4)\<close> (the sum taken as a \<open>uint8_t\<close>) and \<open>setRotation(m)\<close>
  lead to the same state, hence the same logical width and height and the same bytes
  sent; \<open>setRotation(m)\<close> does what \<open>setRotation(m mod 4)\<close> does; the data byte sent is
  the one of the rotation \<open>m mod 4\<close>; and width and height are the panel's height and
  width (swapped) for the rotations 1 and 3 and the panel's width and height for the
  rotations 0 and 2.
\<close>

theorem C5_setRotation_mod4:
  "setRotation h (m + 4) s = setRotation h m s
   \<and> setRotation h m s = setRotation h (word_of_nat (unat m mod 4)) s
   \<and> port (setRotation h m s)
       = port s @ [Cmd (ST7735_MADCTL h),
                   Data (if unat m mod 4 = 0 then MADCTL_MX OR MADCTL_MY OR MADCTL_RGB
                         else if unat m mod 4 = 1 then MADCTL_MY OR MADCTL_MV OR MADCTL_RGB
                         else if unat m mod 4 = 2 then MADCTL_RGB
                         else MADCTL_MX OR MADCTL_MV OR MADCTL_RGB)]
   \<and> (width (setRotation h m s), height (setRotation h m s))
       = (if unat m mod 4 = 1 \<or> unat m mod 4 = 3
          then (ST7735_TFTHEIGHT h, ST7735_TFTWIDTH h)
          else (ST7735_TFTWIDTH h, ST7735_TFTHEIGHT h))"
proof -
  have u: "unat (m mod 4) = unat m mod 4"
    by (simp add: unat_mod)
  have e0: "unat m mod 4 = 0 \<longleftrightarrow> m mod 4 = 0"
    using u by (simp add: word_unat_eq_iff)
  have e1: "unat m mod 4 = 1 \<longleftrightarrow> m mod 4 = 1"
    using u by (simp add: word_unat_eq_iff)
  have e2: "unat m mod 4 = 2 \<longleftrightarrow> m mod 4 = 2"
    using u by (simp add: word_unat_eq_iff)
  have e3: "unat m mod 4 = 3 \<longleftrightarrow> m mod 4 = 3"
    using u by (simp add: word_unat_eq_iff)
  have a: "setRotation h (m + 4) s = setRotation h m s"
    by (simp add: setRotation_def rotation_plus4)
  have b: "setRotation h m s = setRotation h (word_of_nat (unat m mod 4)) s"
    by (simp add: setRotation_def rotation_wrap)
  have c: "port (setRotation h m s)
       = port s @ [Cmd (ST7735_MADCTL h),
                   Data (if unat m mod 4 = 0 then MADCTL_MX OR MADCTL_MY OR MADCTL_RGB
                         else if unat m mod 4 = 1 then MADCTL_MY OR MADCTL_MV OR MADCTL_RGB
                         else if unat m mod 4 = 2 then MADCTL_RGB
                         else MADCTL_MX OR MADCTL_MV OR MADCTL_RGB)]"
    unfolding e0 e1 e2 e3 using rotation_cases [of m]
    by (auto simp: setRotation_def Let_def st7735_send_cmd_def st7735_send_data_def)
  have d: "(width (setRotation h m s), height (setRotation h m s))
       = (if unat m mod 4 = 1 \<or> unat m mod 4 = 3
          then (ST7735_TFTHEIGHT h, ST7735_TFTWIDTH h)
          else (ST7735_TFTWIDTH h, ST7735_TFTHEIGHT h))"
    unfolding e0 e1 e2 e3 using rotation_cases [of m]
    by (auto simp: setRotation_def Let_def st7735_send_cmd_def st7735_send_data_def)
  from a b c d show ?thesis by (intro conjI)
qed

text \<open>
  Claim C6. On a panel whose logical width and height lie between 1 and 32767 (they are
  passed to \<open>fillRect\<close> as \<open>int16_t\<close>), \<open>fillScreen\<close> sends one address-window setup,
  that is the column-address-set command with four data bytes, the row-address-set
  command with four data bytes and the memory-write command, and after it exactly
  \<open>_width * _height\<close> colour pushes of two data bytes each, and nothing else.
\<close>

theorem C6_fillScreen:
  assumes "0 < uint (width s)" and "uint (width s) < 2 ^ 15"
    and "0 < uint (height s)" and "uint (height s) < 2 ^ 15"
  shows "fillScreen hdr color s = s\<lparr>port := port s @
           [Cmd (ST7735_CASET hdr),
            Data 0, Data (word_of_int (colstart s)),
            Data 0, Data (word_of_int (uint (width s) - 1 + colstart s)),
            Cmd (ST7735_RASET hdr),
            Data 0, Data (word_of_int (rowstart s)),
            Data 0, Data (word_of_int (uint (height s) - 1 + rowstart s)),
            Cmd (ST7735_RAMWR hdr)]
           @ pushes (unat (width s) * unat (height s)) color\<rparr>"
proof -
  have w: "sint (width s) = uint (width s)" and h: "sint (height s) = uint (height s)"
    using assms by (simp_all add: sint_eq_uint16)
  have g: "\<not> (uint (width s) \<le> sint (0 :: int16_t) \<or> uint (height s) \<le> sint (0 :: int16_t))"
    using assms by simp
  have cw: "\<not> uint (width s) \<le> sint (0 :: int16_t) + sint (width s) - 1"
    unfolding w by simp
  have ch: "\<not> uint (height s) \<le> sint (0 :: int16_t) + sint (height s) - 1"
    unfolding h by simp
  have n: "nat (sint (height s)) * nat (sint (width s)) = unat (width s) * unat (height s)"
    unfolding w h by (simp add: mult.commute)
  have "fillScreen hdr color s =
      (let s1 = setAddrWindow hdr 0 0 (word_of_int (sint (width s) - 1))
                  (word_of_int (sint (height s) - 1)) s
       in s1\<lparr>port := port s1 @ pushes (unat (width s) * unat (height s)) color\<rparr>)"
    unfolding fillScreen_def fillRect_port Let_def using g cw ch n by simp
  then show ?thesis
    unfolding w h by (simp add: setAddrWindow_port)
qed

theorem C6_fillScreen_witness:
  "fillScreen sample_h 0xF800 (initial_display sample_h)
     = (initial_display sample_h)\<lparr>port :=
         [Cmd 0x2A, Data 0, Data 0, Data 0, Data 127,
          Cmd 0x2B, Data 0, Data 0, Data 0, Data 159,
          Cmd 0x2C] @ pushes (128 * 160) 0xF800\<rparr>"
proof -
  have h1: "0 < uint (width (initial_display sample_h))"
    and h2: "uint (width (initial_display sample_h)) < 2 ^ 15"
    and h3: "0 < uint (height (initial_display sample_h))"
    and h4: "uint (height (initial_display sample_h)) < 2 ^ 15"
    by (simp_all add: sample_display)
  show ?thesis
    using C6_fillScreen [OF h1 h2 h3 h4, of sample_h "0xF800"]
    by (simp add: sample_display) (simp add: sample_h_def)
qed

text \<open>
  Claim C7. For a start coordinate inside the logical bounds and a width that overflows
  (\<open>x + w - 1 \<ge> _width\<close>), \<open>drawFastHLine\<close> calls \<open>setAddrWindow\<close> with
  \<open>x1 = _width - 1\<close> (as the \<open>uint8_t\<close> argument) and then pushes exactly \<open>_width - x\<close>
  colour values. On a panel whose logical width and height are below 32768, \<open>fillRect\<close>
  calls \<open>setAddrWindow\<close> with the same \<open>x1\<close> and pushes \<open>_width - x\<close> times the clamped
  height \<open>hc\<close> colour values, where \<open>hc\<close> is \<open>_height - y\<close> if the height overflows and
  \<open>h\<close> otherwise (a height that is not positive pushes nothing).
\<close>

theorem C7_clamped_width:
  assumes "0 \<le> sint x" and "sint x < uint (width s)"
    and "0 \<le> sint y" and "sint y < uint (height s)"
    and "uint (width s) \<le> sint x + sint w - 1"
  shows
    "drawFastHLine hdr x y w color s =
       (let s1 = setAddrWindow hdr (ucast x) (ucast y)
                   (word_of_int (uint (width s) - 1)) (ucast y) s
        in s1\<lparr>port := port s1 @ pushes (nat (uint (width s) - sint x)) color\<rparr>)
     \<and> (uint (width s) < 2 ^ 15 \<and> uint (height s) < 2 ^ 15 \<longrightarrow>
        fillRect hdr x y w h color s =
          (let hc = (if uint (height s) \<le> sint y + sint h - 1
                     then uint (height s) - sint y else sint h);
               s1 = setAddrWindow hdr (ucast x) (ucast y)
                      (word_of_int (uint (width s) - 1)) (word_of_int (sint y + hc - 1)) s
           in s1\<lparr>port := port s1 @ pushes (nat (uint (width s) - sint x) * nat hc) color\<rparr>))"
proof (intro conjI impI)
  have g: "\<not> (uint (width s) \<le> sint x \<or> uint (height s) \<le> sint y)"
    using assms by simp
  have lt: "uint (width s) < 2 ^ 16"
    using uint_lt2p [of "width s"] by simp
  with assms have u: "unat (word_of_int (uint (width s) - sint x) :: 16 word)
      = nat (uint (width s) - sint x)"
    by (intro unat_wi16) simp_all
  show "drawFastHLine hdr x y w color s =
       (let s1 = setAddrWindow hdr (ucast x) (ucast y)
                   (word_of_int (uint (width s) - 1)) (ucast y) s
        in s1\<lparr>port := port s1 @ pushes (nat (uint (width s) - sint x)) color\<rparr>)"
    unfolding drawFastHLine_port Let_def
    by (simp only: g assms(5) if_True if_False u clamped_x1)
next
  assume b: "uint (width s) < 2 ^ 15 \<and> uint (height s) < 2 ^ 15"
  have g: "\<not> (uint (width s) \<le> sint x \<or> uint (height s) \<le> sint y)"
    using assms by simp
  from b assms have sw: "sint (word_of_int (uint (width s) - sint x) :: 16 word)
      = uint (width s) - sint x"
    by (intro sint_wi16) simp_all
  from b assms have sh: "sint (word_of_int (uint (height s) - sint y) :: 16 word)
      = uint (height s) - sint y"
    by (intro sint_wi16) simp_all
  have ar: "sint x + (uint (width s) - sint x) - 1 = uint (width s) - 1"
    by simp
  show "fillRect hdr x y w h color s =
          (let hc = (if uint (height s) \<le> sint y + sint h - 1
                     then uint (height s) - sint y else sint h);
               s1 = setAddrWindow hdr (ucast x) (ucast y)
                      (word_of_int (uint (width s) - 1)) (word_of_int (sint y + hc - 1)) s
           in s1\<lparr>port := port s1 @ pushes (nat (uint (width s) - sint x) * nat hc) color\<rparr>)"
  proof (cases "uint (height s) \<le> sint y + sint h - 1")
    case True
    show ?thesis
      unfolding fillRect_port Let_def
      by (simp only: g assms(5) True if_True if_False sw sh ar mult.commute)
  next
    case False
    show ?thesis
      unfolding fillRect_port Let_def
      by (simp only: g assms(5) False if_True if_False sw ar mult.commute)
  qed
qed

theorem C7_clamped_width_witness:
  "drawFastHLine sample_h 120 10 20 0xF800 (initial_display sample_h)
     = (initial_display sample_h)\<lparr>port :=
         [Cmd 0x2A, Data 0, Data 120, Data 0, Data 127,
          Cmd 0x2B, Data 0, Data 10, Data 0, Data 10,
          Cmd 0x2C] @ pushes 8 0xF800\<rparr>
   \<and> fillRect sample_h 120 10 20 200 0xF800 (initial_display sample_h)
     = (initial_display sample_h)\<lparr>port :=
         [Cmd 0x2A, Data 0, Data 120, Data 0, Data 127,
          Cmd 0x2B, Data 0, Data 10, Data 0, Data 159,
          Cmd 0x2C] @ pushes (8 * 150) 0xF800\<rparr>"
proof -
  have h1: "0 \<le> sint (120 :: int16_t)"
    and h2: "sint (120 :: int16_t) < uint (width (initial_display sample_h))"
    and h3: "0 \<le> sint (10 :: int16_t)"
    and h4: "sint (10 :: int16_t) < uint (height (initial_display sample_h))"
    and h5: "uint (width (initial_display sample_h)) \<le> sint (120 :: int16_t) + sint (20 :: int16_t) - 1"
    by (simp_all add: sample_display)
  show ?thesis
    using C7_clamped_width [OF h1 h2 h3 h4 h5, of sample_h "0xF800" 200]
    by (simp add: sample_display setAddrWindow_port) (simp add: sample_h_def)
qed

text \<open>
  Claim C8. From a state whose logical width and height are positive, the initialisation
  of the green variant returns, with \<open>colstart = 2\<close> and \<open>rowstart = 1\<close>; the call
  \<open>drawPixel(0, 0, 0xF800)\<close> that follows sends a column-address-set with start value 2,
  a row-address-set with start value 1, the memory-write command and then the data bytes
  \<open>0xF8\<close> and \<open>0x00\<close>, high byte first.
\<close>

theorem C8_greentab_pixel:
  assumes "0 < uint (width s0)" and "0 < uint (height s0)"
  shows "\<exists>s. initR h (INITR_GREENTAB h) s0 = Some s
           \<and> colstart s = 2 \<and> rowstart s = 1
           \<and> port (drawPixel h 0 0 0xF800 s)
               = port s @ [Cmd (ST7735_CASET h), Data 0, Data 2, Data 0, Data 3,
                           Cmd (ST7735_RASET h), Data 0, Data 1, Data 0, Data 2,
                           Cmd (ST7735_RAMWR h), Data 0xF8, Data 0x00]"
  using assms
  by (simp add: initR_eq drawPixel_def setAddrWindow_port pushColor_port)

theorem C8_greentab_pixel_witness:
  "\<exists>s. initR sample_h (INITR_GREENTAB sample_h) (initial_display sample_h) = Some s
           \<and> colstart s = 2 \<and> rowstart s = 1
           \<and> port (drawPixel sample_h 0 0 0xF800 s)
               = port s @ [Cmd (ST7735_CASET sample_h), Data 0, Data 2, Data 0, Data 3,
                           Cmd (ST7735_RASET sample_h), Data 0, Data 1, Data 0, Data 2,
                           Cmd (ST7735_RAMWR sample_h), Data 0xF8, Data 0x00]"
proof -
  have h1: "0 < uint (width (initial_display sample_h))" by (simp add: sample_display)
  have h2: "0 < uint (height (initial_display sample_h))" by (simp add: sample_display)
  show ?thesis by (rule C8_greentab_pixel [OF h1 h2])
qed

text \<open>
  Claim C9. No sequence of calls of \<open>setRotation\<close>, \<open>setAddrWindow\<close>, \<open>pushColor\<close>,
  the drawing primitives, \<open>fillScreen\<close>, \<open>get_width\<close> and \<open>get_height\<close> changes
  \<open>colstart\<close> or \<open>rowstart\<close>: after any such sequence both have the values they had
  before it, in particular the values the initialisation left.
\<close>

theorem C9_offsets_fixed:
  "colstart (foldl (exec_call h) s calls) = colstart s
   \<and> rowstart (foldl (exec_call h) s calls) = rowstart s"
proof (induction calls arbitrary: s)
  case Nil
  show ?case by simp
next
  case (Cons c calls)
  from Cons.IH [of "exec_call h s c"] exec_call_offsets [of h s c]
  show ?case by simp
qed

text \<open>
  Claim C10. For every argument \<open>m\<close> the value \<open>m % 4\<close> is below 4, so the \<open>default\<close>
  branch of the \<open>switch\<close> is never taken, and \<open>setRotation\<close> sends exactly the
  memory-access-control command byte followed by exactly one data byte.
\<close>

theorem C10_setRotation_one_data_byte:
  "unat (m mod 4) < 4
   \<and> (\<exists>d. port (setRotation h m s) = port s @ [Cmd (ST7735_MADCTL h), Data d])"
proof
  show "unat (m mod 4) < 4"
    by (simp add: unat_mod)
  show "\<exists>d. port (setRotation h m s) = port s @ [Cmd (ST7735_MADCTL h), Data d]"
    using rotation_cases [of m]
    by (auto simp: setRotation_def Let_def st7735_send_cmd_def st7735_send_data_def)
qed

end
